theory Spec2Isabelle
  imports Main "HOL-Library.Word"
begin

unbundle bit_operations_syntax

section \<open>Data model of \<open>xvf3800_doa.py\<close>\<close>

text \<open>
  A byte of a USB payload is an 8-bit word. An IEEE-754 binary32 value is kept as its
  32-bit pattern: decoding a response never does arithmetic on it, and the conversion of
  a binary32 to a Python float is exact.
\<close>

type_synonym byte = "8 word"
type_synonym f32 = "32 word"

text \<open>
  The exceptions the program can raise. \<open>ReadOnly name\<close> is
  \<open>ValueError('{} is read-only'.format(name))\<close> and \<open>ValueCount name n\<close> is
  \<open>ValueError('{} value count is not {}'.format(name, n))\<close>, both raised by \<open>write\<close>;
  the others come from the library calls: \<open>struct.error\<close>, \<open>OverflowError\<close>,
  \<open>AttributeError\<close>, \<open>IndexError\<close> and the \<open>USBError\<close> of a failed transfer.
\<close>

datatype error =
    ReadOnly string
  | ValueCount string nat
  | StructError
  | OverflowError
  | AttributeError
  | IndexError
  | USBError

text \<open>
  One entry of the table \<open>PARAMETERS\<close>: the tuple
  \<open>(resid, cmdid, length, access, data type)\<close>, whose components the code reads as
  \<open>data[0]\<close> .. \<open>data[4]\<close>. The last two are strings in the source and stay strings here.
\<close>

record param =
  resid :: nat
  cmdid :: nat
  len :: nat
  access :: string
  data_type :: string

definition PARAMETERS :: "string \<rightharpoonup> param" where
  "PARAMETERS =
     [''VERSION'' \<mapsto>
        \<lparr>resid = 48, cmdid = 0, len = 3, access = ''ro'', data_type = ''uint8''\<rparr>,
      ''AEC_AZIMUTH_VALUES'' \<mapsto>
        \<lparr>resid = 33, cmdid = 75, len = 16, access = ''ro'', data_type = ''radians''\<rparr>,
      ''DOA_VALUE'' \<mapsto>
        \<lparr>resid = 20, cmdid = 18, len = 4, access = ''ro'', data_type = ''uint16''\<rparr>,
      ''REBOOT'' \<mapsto>
        \<lparr>resid = 48, cmdid = 7, len = 1, access = ''wo'', data_type = ''uint8''\<rparr>]"

subsection \<open>The USB device\<close>

text \<open>
  The arguments of one \<open>ctrl_transfer\<close> call. The fifth argument is the payload of a
  host-to-device transfer (\<open>Inl\<close>) or the number of bytes asked for by a device-to-host
  transfer (\<open>Inr\<close>).
\<close>

record transfer =
  bmRequestType :: nat
  bRequest :: nat
  wValue :: nat
  wIndex :: nat
  data_or_wLength :: "byte list + nat"
  timeout :: nat

text \<open>
  A device has the identifiers discovery matches on, an answer to every transfer (which
  may depend on the transfers issued before) and the list of the transfers issued so far.
  A transfer is the only effect the program has on a device.
\<close>

record device =
  idVendor :: nat
  idProduct :: nat
  respond :: "transfer list \<Rightarrow> transfer \<Rightarrow> error + byte list"
  issued :: "transfer list"

definition ctrl_transfer :: "device \<Rightarrow> transfer \<Rightarrow> (error + byte list) \<times> device" where
  "ctrl_transfer d t = (respond d (issued d) t, d\<lparr>issued := issued d @ [t]\<rparr>)"

text \<open>The constants of \<open>usb.util\<close> the program combines into \<open>bmRequestType\<close>.\<close>

definition CTRL_OUT :: nat where "CTRL_OUT = 0x00"
definition CTRL_IN :: nat where "CTRL_IN = 0x80"
definition CTRL_TYPE_VENDOR :: nat where "CTRL_TYPE_VENDOR = 0x40"
definition CTRL_RECIPIENT_DEVICE :: nat where "CTRL_RECIPIENT_DEVICE = 0x00"

subsection \<open>The session\<close>

record ReSpeaker =
  dev :: device

definition TIMEOUT :: nat where "TIMEOUT = 100000"

section \<open>Decoding: \<open>ReSpeaker.read\<close>\<close>

text \<open>
  What \<open>read\<close> returns: the list of integers of \<open>response.tolist()\<close>, or the tuple of
  floats of \<open>struct.unpack\<close>.
\<close>

datatype pyresult = PyList "int list" | PyTuple "f32 list"

definition tolist :: "byte list \<Rightarrow> int list" where
  "tolist response = map uint response"

text \<open>Four bytes, least significant first, as one binary32 pattern (format \<open><f\<close>).\<close>

definition le_f32 :: "byte \<Rightarrow> byte \<Rightarrow> byte \<Rightarrow> byte \<Rightarrow> f32" where
  "le_f32 b0 b1 b2 b3 =
     ucast b0 OR push_bit 8 (ucast b1) OR push_bit 16 (ucast b2) OR push_bit 24 (ucast b3)"

fun unpack_floats :: "byte list \<Rightarrow> f32 list" where
  "unpack_floats (b0 # b1 # b2 # b3 # bs) = le_f32 b0 b1 b2 b3 # unpack_floats bs"
| "unpack_floats bs = []"

text \<open>
  \<open>struct.unpack('<' + 'f' * num_values, buf)\<close>: the buffer must hold exactly
  \<open>4 * num_values\<close> bytes, else \<open>struct.error\<close>.
\<close>

definition struct_unpack :: "nat \<Rightarrow> byte list \<Rightarrow> error + f32 list" where
  "struct_unpack num_values buf =
     (if length buf = 4 * num_values then Inr (unpack_floats buf) else Inl StructError)"

text \<open>
  The slice \<open>byte_data[1:length]\<close> for \<open>1 \<le> length\<close>: it is shorter than
  \<open>length - 1\<close> when the data is.
\<close>

definition slice_from1 :: "nat \<Rightarrow> 'a list \<Rightarrow> 'a list" where
  "slice_from1 length' xs = take (length' - 1) (drop 1 xs)"

text \<open>
  Lines 84-95 of the source, the \<open>if\<close>/\<open>elif\<close> chain on \<open>data[4]\<close>, in its order.
  \<open>int((length - 1) / 4)\<close> is the quotient rounded down, \<open>length - 1\<close> being
  non-negative.
\<close>

definition decode :: "param \<Rightarrow> nat \<Rightarrow> byte list \<Rightarrow> error + pyresult" where
  "decode data length' response =
     (if data_type data = ''uint8'' then Inr (PyList (tolist response))
      else if data_type data = ''radians'' then
        (let byte_data = response;
             num_values = (length' - 1) div 4
         in case struct_unpack num_values (slice_from1 length' byte_data) of
              Inl e \<Rightarrow> Inl e
            | Inr result \<Rightarrow> Inr (PyTuple result))
      else if data_type data = ''uint16'' then Inr (PyList (tolist response))
      else Inr (PyList (tolist response)))"

text \<open>
  Lines 68-81: the arguments of the transfer \<open>read\<close> issues for the entry \<open>data\<close>.
\<close>

definition read_request :: "param \<Rightarrow> transfer" where
  "read_request data =
     (let resid = resid data;
          cmdid = 0x80 OR cmdid data;
          length' = len data + 1
      in \<lparr>bmRequestType = CTRL_IN OR CTRL_TYPE_VENDOR OR CTRL_RECIPIENT_DEVICE,
          bRequest = 0,
          wValue = cmdid,
          wIndex = resid,
          data_or_wLength = Inr length',
          timeout = TIMEOUT\<rparr>)"

text \<open>
  \<open>read\<close>: an unknown name returns \<open>None\<close> at once; otherwise one device-to-host
  transfer is issued and its response decoded. An exception of the transfer propagates.
\<close>

definition read :: "ReSpeaker \<Rightarrow> string \<Rightarrow> (error + pyresult option) \<times> ReSpeaker" where
  "read self name =
     (case PARAMETERS name of
        None \<Rightarrow> (Inr None, self)
      | Some data \<Rightarrow>
          (let length' = len data + 1;
               (r, d) = ctrl_transfer (dev self) (read_request data)
           in case r of
                Inl e \<Rightarrow> (Inl e, self\<lparr>dev := d\<rparr>)
              | Inr response \<Rightarrow>
                  (case decode data length' response of
                     Inl e \<Rightarrow> (Inl e, self\<lparr>dev := d\<rparr>)
                   | Inr result \<Rightarrow> (Inr (Some result), self\<lparr>dev := d\<rparr>))))"

section \<open>Encoding: \<open>ReSpeaker.write\<close>\<close>

text \<open>
  The values a caller passes in \<open>data_list\<close>: a Python \<open>int\<close>, or a Python \<open>float\<close>.
  A float is given by the binary32 pattern that \<open>struct.pack(b'f', ...)\<close> stores for it;
  the rounding of a double to binary32 is the library's and is no part of this model.
\<close>

datatype pyval = PyInt int | PyFloat f32

subsection \<open>The library calls of the three branches\<close>

definition f32_bytes :: "f32 \<Rightarrow> byte list" where
  "f32_bytes w = [ucast w, ucast (drop_bit 8 w), ucast (drop_bit 16 w), ucast (drop_bit 24 w)]"

fun bit_length :: "nat \<Rightarrow> nat" where
  "bit_length n = (if n = 0 then 0 else Suc (bit_length (n div 2)))"

declare bit_length.simps [simp del]

text \<open>Rounding a magnitude to \<open>p\<close> significant bits, ties to even.\<close>

definition round_half_even :: "nat \<Rightarrow> nat \<Rightarrow> nat" where
  "round_half_even p m =
     (let n = bit_length m
      in if n \<le> p then m
         else (let sh = n - p; q = m div 2 ^ sh; r = m mod 2 ^ sh; h = 2 ^ (sh - 1)
               in (if h < r \<or> (r = h \<and> odd q) then q + 1 else q) * 2 ^ sh))"

text \<open>The binary32 pattern of a magnitude of at most 24 significant bits below \<open>2 ^ 128\<close>.\<close>

definition binary32_of_nat :: "nat \<Rightarrow> f32" where
  "binary32_of_nat s =
     (if s = 0 then 0
      else (let e = bit_length s - 1;
                m = (if 23 \<le> e then s div 2 ^ (e - 23) else s * 2 ^ (23 - e))
            in push_bit 23 (of_nat (e + 127)) OR of_nat (m - 2 ^ 23)))"

text \<open>
  The binary32 value that \<open>struct.pack(b'f', float(x))\<close> stores. \<open>float\<close> of an
  \<open>int\<close> rounds to a double and raises \<open>OverflowError\<close> beyond its range; the native
  format \<open>f\<close> then rounds to binary32 with no range check, a magnitude beyond the range
  becoming infinity.
\<close>

fun binary32 :: "pyval \<Rightarrow> error + f32" where
  "binary32 (PyFloat w) = Inr w"
| "binary32 (PyInt i) =
     (let d = round_half_even 53 (nat \<bar>i\<bar>)
      in if 2 ^ 1024 \<le> d then Inl OverflowError
         else (let s = round_half_even 24 d;
                   w = (if 2 ^ 128 \<le> s then 0x7F800000 else binary32_of_nat s)
               in Inr (if i < 0 then w OR 0x80000000 else w)))"

text \<open>\<open>struct.pack(b'f', float(x))\<close> on a little-endian host.\<close>

definition pack_f :: "pyval \<Rightarrow> error + byte list" where
  "pack_f x = (case binary32 x of Inl e \<Rightarrow> Inl e | Inr w \<Rightarrow> Inr (f32_bytes w))"

text \<open>\<open>x.to_bytes(1, byteorder='little')\<close>: a float has no such method.\<close>

fun to_bytes1 :: "pyval \<Rightarrow> error + byte list" where
  "to_bytes1 (PyInt i) = (if 0 \<le> i \<and> i < 256 then Inr [word_of_int i] else Inl OverflowError)"
| "to_bytes1 (PyFloat w) = Inl AttributeError"

text \<open>
  \<open>struct.pack(b'i', x)\<close> on a little-endian host: the four bytes of the 32-bit two's
  complement, least significant first; \<open>struct.error\<close> out of range or for a float.
\<close>

fun pack_i :: "pyval \<Rightarrow> error + byte list" where
  "pack_i (PyInt i) =
     (if - (2 ^ 31) \<le> i \<and> i < 2 ^ 31 then Inr (f32_bytes (word_of_int i)) else Inl StructError)"
| "pack_i (PyFloat w) = Inl StructError"

subsection \<open>The payload loops\<close>

text \<open>
  \<open>for i in range(data_cnt): payload += pack(data_list[i])\<close>, the index list being
  \<open>range(data_cnt)\<close>; the first exception ends the loop.
\<close>

fun pack_each ::
  "(pyval \<Rightarrow> error + byte list) \<Rightarrow> pyval list \<Rightarrow> nat list \<Rightarrow> byte list \<Rightarrow> error + byte list"
where
  "pack_each pack data_list [] payload = Inr payload"
| "pack_each pack data_list (i # rest) payload =
     (if i < length data_list then
        (case pack (data_list ! i) of
           Inl e \<Rightarrow> Inl e
         | Inr bs \<Rightarrow> pack_each pack data_list rest (payload @ bs))
      else Inl IndexError)"

text \<open>Lines 39-49 of the source: the branch on \<open>data_type\<close>, from the empty payload.\<close>

definition encode :: "string \<Rightarrow> nat \<Rightarrow> pyval list \<Rightarrow> error + byte list" where
  "encode data_type' data_cnt data_list =
     (if data_type' \<in> {''float'', ''radians''} then
        pack_each pack_f data_list [0..<data_cnt] []
      else if data_type' \<in> {''char'', ''uint8''} then
        pack_each to_bytes1 data_list [0..<data_cnt] []
      else pack_each pack_i data_list [0..<data_cnt] [])"

text \<open>
  \<open>write\<close>: an unknown name returns at once; the two checks raise before anything is
  encoded; the payload is complete before the one host-to-device transfer is issued.
  The method returns no value.
\<close>

definition write' :: "ReSpeaker \<Rightarrow> string \<Rightarrow> pyval list \<Rightarrow> (error + unit) \<times> ReSpeaker" where
  "write' self name data_list =
     (case PARAMETERS name of
        None \<Rightarrow> (Inr (), self)
      | Some data \<Rightarrow>
          if access data = ''ro'' then (Inl (ReadOnly name), self)
          else if length data_list \<noteq> len data then (Inl (ValueCount name (len data)), self)
          else
            (let windex = resid data;
                 wvalue = cmdid data;
                 data_type' = data_type data;
                 data_cnt = len data
             in case encode data_type' data_cnt data_list of
                  Inl e \<Rightarrow> (Inl e, self)
                | Inr payload \<Rightarrow>
                    (let (r, d) = ctrl_transfer (dev self)
                       \<lparr>bmRequestType = CTRL_OUT OR CTRL_TYPE_VENDOR OR CTRL_RECIPIENT_DEVICE,
                        bRequest = 0,
                        wValue = wvalue,
                        wIndex = windex,
                        data_or_wLength = Inl payload,
                        timeout = TIMEOUT\<rparr>
                     in case r of
                          Inl e \<Rightarrow> (Inl e, self\<lparr>dev := d\<rparr>)
                        | Inr n \<Rightarrow> (Inr (), self\<lparr>dev := d\<rparr>))))"

section \<open>Discovery: \<open>find\<close>\<close>

text \<open>
  \<open>usb.core.find(idVendor=vid, idProduct=pid)\<close> and \<open>usb.core.find(idVendor=vid)\<close>:
  the first device of the bus that has every attribute asked for, or \<open>None\<close>.
\<close>

definition usb_core_find :: "device list \<Rightarrow> nat \<Rightarrow> nat option \<Rightarrow> device option" where
  "usb_core_find bus vid pid =
     List.find (\<lambda>d. idVendor d = vid \<and> (case pid of None \<Rightarrow> True | Some p \<Rightarrow> idProduct d = p)) bus"

definition vids_pids :: "(nat \<times> nat) list" where
  "vids_pids = [(0x2886, 0x001A), (0x2886, 0x0018)]"

text \<open>The \<open>for vid, pid in vids_pids\<close> loop: it returns at the first device found.\<close>

fun find_pairs :: "device list \<Rightarrow> (nat \<times> nat) list \<Rightarrow> ReSpeaker option" where
  "find_pairs bus [] = None"
| "find_pairs bus ((vid, pid) # rest) =
     (case usb_core_find bus vid (Some pid) of
        Some d \<Rightarrow> Some \<lparr>dev = d\<rparr>
      | None \<Rightarrow> find_pairs bus rest)"

definition find' :: "device list \<Rightarrow> ReSpeaker option" where
  "find' bus =
     (case find_pairs bus vids_pids of
        Some r \<Rightarrow> Some r
      | None \<Rightarrow>
          (case usb_core_find bus 0x2886 None of
             Some d \<Rightarrow> Some \<lparr>dev = d\<rparr>
           | None \<Rightarrow> None))"

section \<open>The polling loop's reading of \<open>DOA_VALUE\<close>\<close>

text \<open>\<open>xs[i]\<close> for a non-negative index: \<open>IndexError\<close> out of range.\<close>

definition getitem :: "'a list \<Rightarrow> nat \<Rightarrow> error + 'a" where
  "getitem xs i = (if i < length xs then Inr (xs ! i) else Inl IndexError)"

text \<open>
  Lines 142-152 of \<open>main\<close>, for the list \<open>doa\<close> that \<open>read\<close> returned: the triple
  \<open>(status, speech_flag, angle_raw)\<close> the loop prints, \<open>None\<close> when the \<open>if\<close> is skipped,
  or the exception of an index out of range.
\<close>

definition doa_fields :: "int list \<Rightarrow> error + (int \<times> int option \<times> int option) option" where
  "doa_fields doa =
     (if doa \<noteq> [] \<and> 0 < length doa then
        (case getitem doa 0 of
           Inl e \<Rightarrow> Inl e
         | Inr status \<Rightarrow>
             (case (if 3 \<le> length doa then
                      (case getitem doa 1 of
                         Inl e \<Rightarrow> Inl e
                       | Inr b1 \<Rightarrow>
                           (case getitem doa 2 of
                              Inl e \<Rightarrow> Inl e
                            | Inr b2 \<Rightarrow> Inr (Some (b1 OR push_bit 8 b2))))
                    else if 2 \<le> length doa then
                      (case getitem doa 1 of
                         Inl e \<Rightarrow> Inl e
                       | Inr b1 \<Rightarrow> Inr (Some b1))
                    else Inr None) of
                Inl e \<Rightarrow> Inl e
              | Inr angle_raw \<Rightarrow>
                  (case (if 3 < length doa then
                           (case getitem doa 3 of
                              Inl e \<Rightarrow> Inl e
                            | Inr b3 \<Rightarrow> Inr (Some b3))
                         else Inr None) of
                     Inl e \<Rightarrow> Inl e
                   | Inr speech_flag \<Rightarrow> Inr (Some (status, speech_flag, angle_raw)))))
      else Inr None)"

section \<open>Devices and values the properties are tried on\<close>

text \<open>A device that gives the same answer to every transfer, with nothing issued yet.\<close>

definition fixed_device :: "nat \<Rightarrow> nat \<Rightarrow> error + byte list \<Rightarrow> device" where
  "fixed_device vid pid answer =
     \<lparr>idVendor = vid, idProduct = pid, respond = (\<lambda>history t. answer), issued = []\<rparr>"

text \<open>Sixteen binary32 values, the numbers 1.0 to 16.0.\<close>

definition sample_values :: "f32 list" where
  "sample_values =
     [0x3F800000, 0x40000000, 0x40400000, 0x40800000,
      0x40A00000, 0x40C00000, 0x40E00000, 0x41000000,
      0x41100000, 0x41200000, 0x41300000, 0x41400000,
      0x41500000, 0x41600000, 0x41700000, 0x41800000]"

text \<open>
  A response of \<open>AEC_AZIMUTH_VALUES\<close>: the status byte 0 and sixteen bytes, the numbers
  1.0, 2.0, 3.0 and 4.0 as little-endian binary32 values.
\<close>

definition sample_response :: "byte list" where
  "sample_response =
     [0x00, 0x00, 0x00, 0x80, 0x3F, 0x00, 0x00, 0x00, 0x40,
      0x00, 0x00, 0x40, 0x40, 0x00, 0x00, 0x80, 0x40]"

section \<open>The table\<close>

lemma PARAMETERS_cases:
  assumes "PARAMETERS name = Some data"
  shows "name = ''VERSION'' \<and>
           data = \<lparr>resid = 48, cmdid = 0, len = 3, access = ''ro'', data_type = ''uint8''\<rparr>
       \<or> name = ''AEC_AZIMUTH_VALUES'' \<and>
           data = \<lparr>resid = 33, cmdid = 75, len = 16, access = ''ro'', data_type = ''radians''\<rparr>
       \<or> name = ''DOA_VALUE'' \<and>
           data = \<lparr>resid = 20, cmdid = 18, len = 4, access = ''ro'', data_type = ''uint16''\<rparr>
       \<or> name = ''REBOOT'' \<and>
           data = \<lparr>resid = 48, cmdid = 7, len = 1, access = ''wo'', data_type = ''uint8''\<rparr>"
  using assms by (simp add: PARAMETERS_def split: if_splits)

lemma PARAMETERS_VERSION:
  "PARAMETERS ''VERSION'' =
     Some \<lparr>resid = 48, cmdid = 0, len = 3, access = ''ro'', data_type = ''uint8''\<rparr>"
  by (simp add: PARAMETERS_def)

lemma PARAMETERS_AEC:
  "PARAMETERS ''AEC_AZIMUTH_VALUES'' =
     Some \<lparr>resid = 33, cmdid = 75, len = 16, access = ''ro'', data_type = ''radians''\<rparr>"
  by (simp add: PARAMETERS_def)

lemma PARAMETERS_DOA:
  "PARAMETERS ''DOA_VALUE'' =
     Some \<lparr>resid = 20, cmdid = 18, len = 4, access = ''ro'', data_type = ''uint16''\<rparr>"
  by (simp add: PARAMETERS_def)

lemma PARAMETERS_REBOOT:
  "PARAMETERS ''REBOOT'' =
     Some \<lparr>resid = 48, cmdid = 7, len = 1, access = ''wo'', data_type = ''uint8''\<rparr>"
  by (simp add: PARAMETERS_def)

lemma PARAMETERS_unknown: "PARAMETERS ''GAIN'' = None"
  by (simp add: PARAMETERS_def)

section \<open>The checks of \<open>write\<close>\<close>

text \<open>
  C4. For every name of the table whose access mode is \<open>ro\<close> and every value sequence,
  of any length and content, \<open>write\<close> raises the read-only \<open>ValueError\<close>, and the session
  it leaves is the one it was given: no transfer has been issued.
\<close>

theorem write_read_only:
  assumes "PARAMETERS name = Some data" and "access data = ''ro''"
  shows "write' self name data_list = (Inl (ReadOnly name), self)"
  using assms by (simp add: write'_def)

theorem write_read_only_witness:
  "write' \<lparr>dev = fixed_device 0x2886 0x1A (Inr [])\<rparr> ''DOA_VALUE''
       [PyInt 1, PyInt 2, PyInt 3, PyInt 4]
     = (Inl (ReadOnly ''DOA_VALUE''), \<lparr>dev = fixed_device 0x2886 0x1A (Inr [])\<rparr>)"
  using write_read_only [OF PARAMETERS_DOA,
      of "\<lparr>dev = fixed_device 0x2886 0x1A (Inr [])\<rparr>" "[PyInt 1, PyInt 2, PyInt 3, PyInt 4]"]
  by simp

text \<open>
  C3, as the code has it. The read-only check comes first, so the count check is reached
  only by a name that is not read-only: for every name of the table whose access mode is
  not \<open>ro\<close> and every value sequence whose length differs from the declared count,
  \<open>write\<close> raises the value-count \<open>ValueError\<close> and issues no transfer.
\<close>

theorem write_count_mismatch:
  assumes "PARAMETERS name = Some data" and "access data \<noteq> ''ro''"
    and "length data_list \<noteq> len data"
  shows "write' self name data_list = (Inl (ValueCount name (len data)), self)"
  using assms by (simp add: write'_def)

theorem write_count_mismatch_witness:
  "write' \<lparr>dev = fixed_device 0x2886 0x1A (Inr [])\<rparr> ''REBOOT'' [PyInt 1, PyInt 2]
     = (Inl (ValueCount ''REBOOT'' 1), \<lparr>dev = fixed_device 0x2886 0x1A (Inr [])\<rparr>)"
  using write_count_mismatch [OF PARAMETERS_REBOOT,
      of "[PyInt 1, PyInt 2]" "\<lparr>dev = fixed_device 0x2886 0x1A (Inr [])\<rparr>"]
  by simp

text \<open>
  C3 as stated fails on a read-only name: \<open>VERSION\<close> declares three values, and a write
  of no value raises the read-only error, not the value-count error.
\<close>

theorem write_count_mismatch_counterexample:
  "length ([] :: pyval list) \<noteq> 3 \<and>
   fst (write' \<lparr>dev = fixed_device 0x2886 0x1A (Inr [])\<rparr> ''VERSION'' [])
     = Inl (ReadOnly ''VERSION'') \<and>
   fst (write' \<lparr>dev = fixed_device 0x2886 0x1A (Inr [])\<rparr> ''VERSION'' [])
     \<noteq> Inl (ValueCount ''VERSION'' 3)"
  by (simp add: write'_def PARAMETERS_def)

section \<open>Unknown names\<close>

text \<open>
  C5. For every name that is not in the table, \<open>read\<close> returns \<open>None\<close> and \<open>write\<close>
  returns; neither raises, and both leave the session as it was given, so no transfer
  has been issued.
\<close>

theorem unknown_name_no_op:
  assumes "PARAMETERS name = None"
  shows "read self name = (Inr None, self) \<and> write' self name data_list = (Inr (), self)"
  using assms by (simp add: read_def write'_def)

theorem unknown_name_no_op_witness:
  "read \<lparr>dev = fixed_device 0x2886 0x1A (Inr [0])\<rparr> ''GAIN''
     = (Inr None, \<lparr>dev = fixed_device 0x2886 0x1A (Inr [0])\<rparr>) \<and>
   write' \<lparr>dev = fixed_device 0x2886 0x1A (Inr [0])\<rparr> ''GAIN'' [PyInt 5]
     = (Inr (), \<lparr>dev = fixed_device 0x2886 0x1A (Inr [0])\<rparr>)"
  using unknown_name_no_op [OF PARAMETERS_unknown,
      of "\<lparr>dev = fixed_device 0x2886 0x1A (Inr [0])\<rparr>" "[PyInt 5]"]
  by simp

section \<open>The transfer of \<open>read\<close>\<close>

text \<open>
  C6. For every name of the table, \<open>read\<close> issues exactly one transfer, whatever the
  device answers: its \<open>wValue\<close> is \<open>0x80\<close> or-ed with the command id, its \<open>wIndex\<close> the
  resource id, and the length it asks for the declared count plus one.
\<close>

theorem read_issues_request:
  assumes "PARAMETERS name = Some data"
  shows "issued (dev (snd (read self name))) = issued (dev self) @
           [\<lparr>bmRequestType = 0xC0, bRequest = 0, wValue = 0x80 OR cmdid data,
             wIndex = resid data, data_or_wLength = Inr (len data + 1), timeout = 100000\<rparr>]"
  using assms
  by (simp add: read_def read_request_def ctrl_transfer_def Let_def CTRL_IN_def
      CTRL_TYPE_VENDOR_def CTRL_RECIPIENT_DEVICE_def TIMEOUT_def
      split: sum.splits prod.splits)

theorem read_issues_request_witness:
  "issued (dev (snd (read \<lparr>dev = fixed_device 0x2886 0x1A (Inl USBError)\<rparr> ''DOA_VALUE''))) =
     [\<lparr>bmRequestType = 0xC0, bRequest = 0, wValue = 0x92, wIndex = 20,
       data_or_wLength = Inr 5, timeout = 100000\<rparr>]"
  using read_issues_request [OF PARAMETERS_DOA,
      of "\<lparr>dev = fixed_device 0x2886 0x1A (Inl USBError)\<rparr>"]
  by (simp add: fixed_device_def)

section \<open>Packing and unpacking binary32 values\<close>

lemma le_f32_bytes:
  "le_f32 (ucast w) (ucast (drop_bit 8 w)) (ucast (drop_bit 16 w)) (ucast (drop_bit 24 w)) = w"
  unfolding le_f32_def
  apply (rule bit_word_eqI)
  apply (auto simp: bit_simps)
  subgoal for n by (cases "24 \<le> n") simp_all
  done

lemma unpack_floats_bytes: "unpack_floats (f32_bytes w @ bs) = w # unpack_floats bs"
  by (simp add: f32_bytes_def le_f32_bytes)

lemma unpack_floats_concat: "unpack_floats (concat (map f32_bytes ws)) = ws"
  by (induction ws) (simp_all add: unpack_floats_bytes)

lemma length_f32_bytes: "length (f32_bytes w) = 4"
  by (simp add: f32_bytes_def)

lemma length_concat_f32_bytes: "length (concat (map f32_bytes ws)) = 4 * length ws"
  by (induction ws) (simp_all add: length_f32_bytes)

lemma length_unpack_floats: "length (unpack_floats bs) = length bs div 4"
  by (induction bs rule: unpack_floats.induct) simp_all

lemma decode_radians_bytes:
  assumes "data_type data = ''radians''" and "length ws = len data div 4"
  shows "decode data (len data + 1) (status # concat (map f32_bytes ws)) = Inr (PyTuple ws)"
proof -
  let ?bs = "concat (map f32_bytes ws)"
  have l: "length ?bs = 4 * (len data div 4)"
    using assms(2) by (simp add: length_concat_f32_bytes)
  then have "length ?bs \<le> len data" by simp
  then have s: "slice_from1 (len data + 1) (status # ?bs) = ?bs"
    by (simp add: slice_from1_def)
  have u: "struct_unpack (len data div 4) ?bs = Inr ws"
    using l by (simp add: struct_unpack_def unpack_floats_concat)
  show ?thesis
    using assms(1) s u by (simp add: decode_def)
qed

section \<open>What \<open>read\<close> returns\<close>

lemma read_answer:
  assumes "PARAMETERS name = Some data"
    and "respond (dev self) (issued (dev self)) (read_request data) = Inr response"
  shows "fst (read self name) =
           (case decode data (len data + 1) response of
              Inl e \<Rightarrow> Inl e | Inr result \<Rightarrow> Inr (Some result))"
  using assms by (simp add: read_def ctrl_transfer_def Let_def split: sum.splits)

text \<open>
  C2, as the code has it. For every name of the table whose type is \<open>radians\<close>: \<open>write\<close>
  refuses every value sequence with the read-only \<open>ValueError\<close>, the session unchanged, so
  nothing is encoded; and for every sequence of a quarter of the declared number of
  binary32 values, when the device answers the request of \<open>read\<close> with any status byte
  followed by the little-endian bytes of the values, the declared number plus one bytes
  in all, \<open>read\<close> returns exactly these values.
\<close>

theorem radians_round_trip:
  assumes "PARAMETERS name = Some data" and "data_type data = ''radians''"
    and "length ws = len data div 4"
    and "respond (dev self) (issued (dev self)) (read_request data)
           = Inr (status # concat (map f32_bytes ws))"
  shows "write' self name v = (Inl (ReadOnly name), self) \<and>
         length (status # concat (map f32_bytes ws)) = len data + 1 \<and>
         fst (read self name) = Inr (Some (PyTuple ws))"
proof -
  from PARAMETERS_cases [OF assms(1)] assms(2)
  have l: "len data = 16" and a: "access data = ''ro''" by auto
  have w: "write' self name v = (Inl (ReadOnly name), self)"
    using assms(1) a by (simp add: write'_def)
  have n: "length (status # concat (map f32_bytes ws)) = len data + 1"
    using assms(3) l by (simp add: length_concat_f32_bytes)
  have r: "fst (read self name) = Inr (Some (PyTuple ws))"
    using read_answer [OF assms(1,4)] decode_radians_bytes [OF assms(2,3), of status]
    by simp
  from w n r show ?thesis by simp
qed

theorem radians_round_trip_witness:
  "write' \<lparr>dev = fixed_device 0x2886 0x1A (Inr (0x55 # concat (map f32_bytes (take 4 sample_values))))\<rparr>
       ''AEC_AZIMUTH_VALUES'' (map PyFloat sample_values)
     = (Inl (ReadOnly ''AEC_AZIMUTH_VALUES''),
        \<lparr>dev = fixed_device 0x2886 0x1A (Inr (0x55 # concat (map f32_bytes (take 4 sample_values))))\<rparr>) \<and>
   length (0x55 # concat (map f32_bytes (take 4 sample_values))) = 17 \<and>
   fst (read \<lparr>dev = fixed_device 0x2886 0x1A (Inr (0x55 # concat (map f32_bytes (take 4 sample_values))))\<rparr>
          ''AEC_AZIMUTH_VALUES'')
     = Inr (Some (PyTuple [0x3F800000, 0x40000000, 0x40400000, 0x40800000]))"
  using radians_round_trip [OF PARAMETERS_AEC, where
     ws = "take 4 sample_values" and status = "0x55"
     and self = "\<lparr>dev = fixed_device 0x2886 0x1A (Inr (0x55 # concat (map f32_bytes (take 4 sample_values))))\<rparr>"
     and v = "map PyFloat sample_values"]
  by (simp add: fixed_device_def sample_values_def)

text \<open>
  C2 as stated fails on \<open>AEC_AZIMUTH_VALUES\<close>, which declares sixteen. A write of sixteen
  values is refused as read-only, so the program encodes nothing; and when the device
  answers the request of \<open>read\<close> with the status byte 0 and the bytes of the sixteen
  values, cut at the seventeen bytes the request asks for, \<open>read\<close> returns the first four
  values, not the sixteen.
\<close>

theorem radians_round_trip_counterexample:
  "length sample_values = 16 \<and>
   fst (write' \<lparr>dev = fixed_device 0x2886 0x1A (Inr [])\<rparr> ''AEC_AZIMUTH_VALUES''
          (map PyFloat sample_values))
     = Inl (ReadOnly ''AEC_AZIMUTH_VALUES'') \<and>
   fst (read \<lparr>dev = fixed_device 0x2886 0x1A
                     (Inr (take 17 (0 # concat (map f32_bytes sample_values))))\<rparr>
          ''AEC_AZIMUTH_VALUES'')
     = Inr (Some (PyTuple (take 4 sample_values))) \<and>
   take 4 sample_values \<noteq> sample_values"
  by (simp add: write'_def read_def PARAMETERS_def ctrl_transfer_def fixed_device_def
      read_request_def decode_def struct_unpack_def slice_from1_def sample_values_def
      f32_bytes_def le_f32_def Let_def)

text \<open>
  C1, as the code has it. For every name of the table whose type is \<open>radians\<close>, \<open>read\<close>
  asks for the declared number plus one bytes and, given at least that many, unpacks the
  bytes 1 to the declared number, the status byte skipped, as little-endian binary32
  values: a quarter of the declared number of them, four for \<open>AEC_AZIMUTH_VALUES\<close>.
\<close>

theorem read_radians:
  assumes "PARAMETERS name = Some data" and "data_type data = ''radians''"
    and "respond (dev self) (issued (dev self)) (read_request data) = Inr response"
    and "len data + 1 \<le> length response"
  shows "data_or_wLength (read_request data) = Inr (len data + 1) \<and>
         fst (read self name) =
           Inr (Some (PyTuple (unpack_floats (take (len data) (drop 1 response))))) \<and>
         length (unpack_floats (take (len data) (drop 1 response))) = len data div 4"
proof -
  from PARAMETERS_cases [OF assms(1)] assms(2) have l: "len data = 16" by auto
  have n: "length (take (len data) (drop 1 response)) = 16"
    using assms(4) l by simp
  have "decode data (len data + 1) response =
          Inr (PyTuple (unpack_floats (take (len data) (drop 1 response))))"
    using assms(2) n l by (simp add: decode_def struct_unpack_def slice_from1_def)
  then show ?thesis
    using read_answer [OF assms(1,3)] n l
    by (simp add: read_request_def Let_def length_unpack_floats)
qed

theorem read_radians_witness:
  "fst (read \<lparr>dev = fixed_device 0x2886 0x1A (Inr sample_response)\<rparr> ''AEC_AZIMUTH_VALUES'')
     = Inr (Some (PyTuple [0x3F800000, 0x40000000, 0x40400000, 0x40800000]))"
  using read_radians [OF PARAMETERS_AEC,
      of "\<lparr>dev = fixed_device 0x2886 0x1A (Inr sample_response)\<rparr>" sample_response]
  by (simp add: fixed_device_def sample_response_def le_f32_def)

text \<open>
  C1 as stated fails: given the seventeen bytes it asks for, \<open>read\<close> of
  \<open>AEC_AZIMUTH_VALUES\<close> returns four values, not sixteen.
\<close>

theorem read_azimuth_counterexample:
  "fst (read \<lparr>dev = fixed_device 0x2886 0x1A (Inr sample_response)\<rparr> ''AEC_AZIMUTH_VALUES'')
     = Inr (Some (PyTuple [0x3F800000, 0x40000000, 0x40400000, 0x40800000]))
   \<and> length [0x3F800000, 0x40000000, 0x40400000, 0x40800000 :: f32] \<noteq> 16"
  by (simp add: read_def PARAMETERS_def ctrl_transfer_def fixed_device_def read_request_def
      decode_def struct_unpack_def slice_from1_def sample_response_def le_f32_def Let_def)

text \<open>
  C10. For every name of the table whose type is \<open>radians\<close>, a response of fewer bytes
  than the declared number plus one makes \<open>read\<close> raise \<open>struct.error\<close>; for every other
  name of the table, the integer types, \<open>read\<close> returns the bytes of the response as they
  are, whatever their number.
\<close>

theorem read_short_response:
  assumes "PARAMETERS name = Some data"
    and "respond (dev self) (issued (dev self)) (read_request data) = Inr response"
  shows "(data_type data = ''radians'' \<longrightarrow> length response < len data + 1 \<longrightarrow>
            fst (read self name) = Inl StructError) \<and>
         (data_type data \<noteq> ''radians'' \<longrightarrow>
            fst (read self name) = Inr (Some (PyList (tolist response))))"
proof (intro conjI impI)
  assume r: "data_type data = ''radians''" and s: "length response < len data + 1"
  from PARAMETERS_cases [OF assms(1)] r have l: "len data = 16" by auto
  have "length (slice_from1 (len data + 1) response) \<noteq> 16"
    using s l by (simp add: slice_from1_def)
  then have "decode data (len data + 1) response = Inl StructError"
    using r l by (simp add: decode_def struct_unpack_def)
  then show "fst (read self name) = Inl StructError"
    using read_answer [OF assms] by simp
next
  assume "data_type data \<noteq> ''radians''"
  then have "decode data (len data + 1) response = Inr (PyList (tolist response))"
    by (simp add: decode_def)
  then show "fst (read self name) = Inr (Some (PyList (tolist response)))"
    using read_answer [OF assms] by simp
qed

theorem read_short_response_witness:
  "fst (read \<lparr>dev = fixed_device 0x2886 0x1A (Inr [0x00, 0x00, 0x00, 0x80, 0x3F])\<rparr>
          ''AEC_AZIMUTH_VALUES'') = Inl StructError \<and>
   fst (read \<lparr>dev = fixed_device 0x2886 0x1A (Inr [0x00, 0x2C])\<rparr> ''DOA_VALUE'')
     = Inr (Some (PyList [0, 44]))"
  using read_short_response [OF PARAMETERS_AEC,
      of "\<lparr>dev = fixed_device 0x2886 0x1A (Inr [0x00, 0x00, 0x00, 0x80, 0x3F])\<rparr>"
         "[0x00, 0x00, 0x00, 0x80, 0x3F]"]
    read_short_response [OF PARAMETERS_DOA,
      of "\<lparr>dev = fixed_device 0x2886 0x1A (Inr [0x00, 0x2C])\<rparr>" "[0x00, 0x2C]"]
  by (simp add: fixed_device_def tolist_def)

text \<open>
  C8. When the device answers the request for \<open>DOA_VALUE\<close> with the bytes
  \<open>00 2C 01 01\<close>, \<open>read\<close> returns the list \<open>[0, 44, 1, 1]\<close>, and the polling loop makes
  the angle 300 of it.
\<close>

theorem read_doa_value:
  assumes "respond (dev self) (issued (dev self))
             (read_request \<lparr>resid = 20, cmdid = 18, len = 4, access = ''ro'', data_type = ''uint16''\<rparr>)
           = Inr [0x00, 0x2C, 0x01, 0x01]"
  shows "fst (read self ''DOA_VALUE'') = Inr (Some (PyList [0, 44, 1, 1])) \<and>
         doa_fields [0, 44, 1, 1] = Inr (Some (0, Some 1, Some 300))"
proof -
  have "fst (read self ''DOA_VALUE'') = Inr (Some (PyList [0, 44, 1, 1]))"
    using read_answer [OF PARAMETERS_DOA assms] by (simp add: decode_def tolist_def)
  moreover have "doa_fields [0, 44, 1, 1] = Inr (Some (0, Some 1, Some 300))"
    by (simp add: doa_fields_def getitem_def)
  ultimately show ?thesis by simp
qed

theorem read_doa_value_witness:
  "fst (read \<lparr>dev = fixed_device 0x2886 0x1A (Inr [0x00, 0x2C, 0x01, 0x01])\<rparr> ''DOA_VALUE'')
     = Inr (Some (PyList [0, 44, 1, 1])) \<and>
   doa_fields [0, 44, 1, 1] = Inr (Some (0, Some 1, Some 300))"
  using read_doa_value [of "\<lparr>dev = fixed_device 0x2886 0x1A (Inr [0x00, 0x2C, 0x01, 0x01])\<rparr>"]
  by (simp add: fixed_device_def)

section \<open>The polling loop's reading of a result\<close>

lemma getitem_in: "i < length xs \<Longrightarrow> getitem xs i = Inr (xs ! i)"
  by (simp add: getitem_def)

text \<open>
  C9. For a result of any length the polling loop raises no \<open>IndexError\<close>: an empty
  result is skipped; otherwise the status is byte 0, the flag is byte 3 when there are
  more than three bytes and absent otherwise, and the angle is byte 1 or-ed with byte 2
  shifted left by eight when there are at least three bytes, byte 1 alone when there are
  two, and absent when there is one.
\<close>

theorem doa_fields_total:
  "doa_fields doa =
     Inr (if doa = [] then None
          else Some (doa ! 0,
                     (if 3 < length doa then Some (doa ! 3) else None),
                     (if 3 \<le> length doa then Some (doa ! 1 OR push_bit 8 (doa ! 2))
                      else if length doa = 2 then Some (doa ! 1)
                      else None)))"
proof (cases "doa = []")
  case True
  then show ?thesis by (simp add: doa_fields_def)
next
  case False
  then have n: "0 < length doa" by simp
  show ?thesis
  proof (cases "3 \<le> length doa")
    case True
    then show ?thesis using False
      by (simp add: doa_fields_def getitem_in)
  next
    case short: False
    show ?thesis
    proof (cases "2 \<le> length doa")
      case True
      with short have "length doa = 2" by simp
      then show ?thesis using False by (simp add: doa_fields_def getitem_in)
    next
      case False
      with n have "length doa = 1" by arith
      then show ?thesis using \<open>doa \<noteq> []\<close> by (simp add: doa_fields_def getitem_in)
    qed
  qed
qed

section \<open>Discovery\<close>

lemma usb_core_find_Some:
  assumes "\<exists>d\<in>set bus. idVendor d = vid \<and> (case pid of None \<Rightarrow> True | Some p \<Rightarrow> idProduct d = p)"
  shows "\<exists>d\<in>set bus. usb_core_find bus vid pid = Some d \<and> idVendor d = vid \<and>
           (case pid of None \<Rightarrow> True | Some p \<Rightarrow> idProduct d = p)"
  using assms unfolding usb_core_find_def
  by (induction bus) auto

lemma usb_core_find_None:
  assumes "\<not> (\<exists>d\<in>set bus. idVendor d = vid \<and> (case pid of None \<Rightarrow> True | Some p \<Rightarrow> idProduct d = p))"
  shows "usb_core_find bus vid pid = None"
  using assms unfolding usb_core_find_def
  by (induction bus) auto

text \<open>
  C7. \<open>find\<close> looks for the pair \<open>(0x2886, 0x001A)\<close> first and for \<open>(0x2886, 0x0018)\<close>
  second, and returns a session of a device of the first pair that is on the bus; only
  when neither pair is on the bus does it return a session of a device that has the
  vendor id \<open>0x2886\<close>; when there is none it returns \<open>None\<close>.
\<close>

theorem find_priority:
  "((\<exists>d\<in>set bus. idVendor d = 0x2886 \<and> idProduct d = 0x1A) \<longrightarrow>
      (\<exists>d\<in>set bus. find' bus = Some \<lparr>dev = d\<rparr> \<and> idVendor d = 0x2886 \<and> idProduct d = 0x1A)) \<and>
   (\<not> (\<exists>d\<in>set bus. idVendor d = 0x2886 \<and> idProduct d = 0x1A) \<longrightarrow>
    (\<exists>d\<in>set bus. idVendor d = 0x2886 \<and> idProduct d = 0x18) \<longrightarrow>
      (\<exists>d\<in>set bus. find' bus = Some \<lparr>dev = d\<rparr> \<and> idVendor d = 0x2886 \<and> idProduct d = 0x18)) \<and>
   (\<not> (\<exists>d\<in>set bus. idVendor d = 0x2886 \<and> idProduct d = 0x1A) \<longrightarrow>
    \<not> (\<exists>d\<in>set bus. idVendor d = 0x2886 \<and> idProduct d = 0x18) \<longrightarrow>
    (\<exists>d\<in>set bus. idVendor d = 0x2886) \<longrightarrow>
      (\<exists>d\<in>set bus. find' bus = Some \<lparr>dev = d\<rparr> \<and> idVendor d = 0x2886)) \<and>
   (\<not> (\<exists>d\<in>set bus. idVendor d = 0x2886) \<longrightarrow> find' bus = None)"
proof (intro conjI impI)
  assume "\<exists>d\<in>set bus. idVendor d = 0x2886 \<and> idProduct d = 0x1A"
  then have "\<exists>d\<in>set bus. usb_core_find bus 0x2886 (Some 0x1A) = Some d \<and> idVendor d = 0x2886 \<and>
           (case Some 0x1A of None \<Rightarrow> True | Some p \<Rightarrow> idProduct d = p)"
    by (intro usb_core_find_Some) simp
  then show "\<exists>d\<in>set bus. find' bus = Some \<lparr>dev = d\<rparr> \<and> idVendor d = 0x2886 \<and> idProduct d = 0x1A"
    by (auto simp: find'_def vids_pids_def)
next
  assume a: "\<not> (\<exists>d\<in>set bus. idVendor d = 0x2886 \<and> idProduct d = 0x1A)"
    and b: "\<exists>d\<in>set bus. idVendor d = 0x2886 \<and> idProduct d = 0x18"
  have n: "usb_core_find bus 0x2886 (Some 0x1A) = None"
    using a by (intro usb_core_find_None) simp
  from b have "\<exists>d\<in>set bus. usb_core_find bus 0x2886 (Some 0x18) = Some d \<and> idVendor d = 0x2886 \<and>
           (case Some 0x18 of None \<Rightarrow> True | Some p \<Rightarrow> idProduct d = p)"
    by (intro usb_core_find_Some) simp
  then show "\<exists>d\<in>set bus. find' bus = Some \<lparr>dev = d\<rparr> \<and> idVendor d = 0x2886 \<and> idProduct d = 0x18"
    using n by (auto simp: find'_def vids_pids_def)
next
  assume a: "\<not> (\<exists>d\<in>set bus. idVendor d = 0x2886 \<and> idProduct d = 0x1A)"
    and b: "\<not> (\<exists>d\<in>set bus. idVendor d = 0x2886 \<and> idProduct d = 0x18)"
    and c: "\<exists>d\<in>set bus. idVendor d = 0x2886"
  have n1: "usb_core_find bus 0x2886 (Some 0x1A) = None"
    using a by (intro usb_core_find_None) simp
  have n2: "usb_core_find bus 0x2886 (Some 0x18) = None"
    using b by (intro usb_core_find_None) simp
  from c have "\<exists>d\<in>set bus. usb_core_find bus 0x2886 None = Some d \<and> idVendor d = 0x2886 \<and>
           (case None :: nat option of None \<Rightarrow> True | Some p \<Rightarrow> idProduct d = p)"
    by (intro usb_core_find_Some) simp
  then show "\<exists>d\<in>set bus. find' bus = Some \<lparr>dev = d\<rparr> \<and> idVendor d = 0x2886"
    using n1 n2 by (auto simp: find'_def vids_pids_def)
next
  assume c: "\<not> (\<exists>d\<in>set bus. idVendor d = 0x2886)"
  have n1: "usb_core_find bus 0x2886 (Some 0x1A) = None"
    using c by (intro usb_core_find_None) auto
  have n2: "usb_core_find bus 0x2886 (Some 0x18) = None"
    using c by (intro usb_core_find_None) auto
  have n3: "usb_core_find bus 0x2886 None = None"
    using c by (intro usb_core_find_None) auto
  show "find' bus = None"
    using n1 n2 n3 by (simp add: find'_def vids_pids_def)
qed

theorem find_priority_witness:
  "find' [fixed_device 0x1234 0x1A (Inr []), fixed_device 0x2886 0x18 (Inr []),
          fixed_device 0x2886 0x1A (Inr [])]
     = Some \<lparr>dev = fixed_device 0x2886 0x1A (Inr [])\<rparr> \<and>
   find' [fixed_device 0x1234 0x1A (Inr []), fixed_device 0x2886 0x99 (Inr []),
          fixed_device 0x2886 0x18 (Inr [])]
     = Some \<lparr>dev = fixed_device 0x2886 0x18 (Inr [])\<rparr> \<and>
   find' [fixed_device 0x1234 0x1A (Inr []), fixed_device 0x2886 0x99 (Inr [])]
     = Some \<lparr>dev = fixed_device 0x2886 0x99 (Inr [])\<rparr> \<and>
   find' [fixed_device 0x1234 0x1A (Inr [])] = None"
  using
    find_priority [of "[fixed_device 0x1234 0x1A (Inr []), fixed_device 0x2886 0x18 (Inr []),
          fixed_device 0x2886 0x1A (Inr [])]"]
    find_priority [of "[fixed_device 0x1234 0x1A (Inr []), fixed_device 0x2886 0x99 (Inr []),
          fixed_device 0x2886 0x18 (Inr [])]"]
    find_priority [of "[fixed_device 0x1234 0x1A (Inr []), fixed_device 0x2886 0x99 (Inr [])]"]
    find_priority [of "[fixed_device 0x1234 0x1A (Inr [])]"]
  by (simp add: fixed_device_def)

end
